theory Spec2Isabelle
  imports Main "HOL-Library.Sublist"
begin

section \<open>Strings\<close>

text \<open>
  \<open>String.prototype.includes\<close>: the argument occurs as a contiguous run of the receiver.
  \<open>String.prototype.toLowerCase\<close> is modelled on the ASCII letters, the only ones the
  phrases matched by the source contain.
\<close>

fun str_includes :: "string \<Rightarrow> string \<Rightarrow> bool" where
  "str_includes [] sub = (sub = [])"
| "str_includes (c # cs) sub = (prefix sub (c # cs) \<or> str_includes cs sub)"

definition lowerChar :: "char \<Rightarrow> char" where
  "lowerChar c =
     (let n = (of_char c :: nat)
      in if 65 \<le> n \<and> n \<le> 90 then char_of (n + 32) else c)"

definition toLowerCase :: "string \<Rightarrow> string" where
  "toLowerCase s = map lowerChar s"

section \<open>Errors\<close>

text \<open>
  A context is the object literal handed to the error handler: keys with string or
  boolean values (the source never repeats a key in one literal).
\<close>

datatype ctx_value = CStr string | CBool bool | CUndefined | CError string

type_synonym ctx = "(string \<times> ctx_value) list"

text \<open>
  \<open>AppError\<close> (\<open>@/types/error.types\<close>): the fields the modelled code reads or writes.
\<close>

record app_error =
  message :: string
  code :: string
  err_context :: ctx
  isOperational :: bool

text \<open>
  The shapes of error value the source tells apart: a string
  (\<open>typeof e === 'string'\<close>), an \<open>Error\<close> instance with no structured fields, and a
  structured \<open>AppError\<close> (which extends \<open>Error\<close>). TypeScript's types are erased at run
  time, so a value typed \<open>AppError | null\<close> is an optional value of this type, and the cast
  \<open>e as AppError\<close> is \<open>e\<close> itself.
\<close>

datatype js_error = Text string | PlainError string | Structured app_error

fun instanceofError :: "js_error \<Rightarrow> bool" where
  "instanceofError (Text s) = False"
| "instanceofError (PlainError m) = True"
| "instanceofError (Structured a) = True"

fun errorMessage :: "js_error \<Rightarrow> string" where
  "errorMessage (Text s) = s"
| "errorMessage (PlainError m) = m"
| "errorMessage (Structured a) = message a"

text \<open>The property read \<open>e.message\<close>: a string has no such property.\<close>

fun messageProperty :: "js_error \<Rightarrow> string option" where
  "messageProperty (Text s) = None"
| "messageProperty (PlainError m) = Some m"
| "messageProperty (Structured a) = Some (message a)"

text \<open>JavaScript truthiness of an error value: only the empty string is falsy.\<close>

fun truthy :: "js_error \<Rightarrow> bool" where
  "truthy (Text s) = (s \<noteq> [])"
| "truthy (PlainError m) = True"
| "truthy (Structured a) = True"

text \<open>
  Modelled from the spec: \<open>isAppError\<close> of \<open>@/lib/error\<close> is not among the sources.
  Spec 4.3: a value is recognised as structured when it carries \<open>code\<close>, \<open>context\<close>
  and \<open>isOperational\<close>.
\<close>

fun isAppError :: "js_error \<Rightarrow> bool" where
  "isAppError (Structured a) = True"
| "isAppError e = False"

definition ctxGet :: "ctx \<Rightarrow> string \<Rightarrow> ctx_value option" where
  "ctxGet c k = map_of c k"

definition isCredentialMessage :: "string \<Rightarrow> bool" where
  "isCredentialMessage m = str_includes m ''Invalid email''"

definition isDuplicateMessage :: "string \<Rightarrow> bool" where
  "isDuplicateMessage m =
     (str_includes (toLowerCase m) ''already registered'' \<or> str_includes (toLowerCase m) ''already in use'')"

definition coarseCode :: "string \<Rightarrow> string" where
  "coarseCode m =
     (if isCredentialMessage m then ''AUTH/INVALID_CREDENTIALS''
      else if isDuplicateMessage m then ''AUTH/EMAIL_ALREADY_IN_USE''
      else ''AUTH/UNKNOWN'')"

text \<open>
  Modelled from the spec: \<open>handleClientError\<close> of \<open>@/lib/error\<close> (imported as
  \<open>handleError\<close>) is not among the sources. Spec 4.3: a structured value is passed
  through unchanged; any other value becomes an \<open>AppError\<close> that keeps the original
  message, is stamped operational and gets a coarse code from known substrings of the
  message (credential failure, duplicate registration with
  \<open>context.shouldSwitchToLogin = true\<close>, otherwise \<open>AUTH/UNKNOWN\<close>), with the context it
  was given. It is stamped non-operational only for a defensive catch, which the callers
  in the sources mark with \<open>unexpected: true\<close> in the context.
\<close>

definition handleError :: "js_error \<Rightarrow> ctx \<Rightarrow> js_error" where
  "handleError e c =
     (if isAppError e then e
      else
         (let m = errorMessage e
          in Structured \<lparr> message = m,
               code = coarseCode m,
               err_context = (if isDuplicateMessage m \<and> ctxGet c ''shouldSwitchToLogin'' = None
                          then c @ [(''shouldSwitchToLogin'', CBool True)] else c),
               isOperational = (ctxGet c ''unexpected'' \<noteq> Some (CBool True)) \<rparr>))"

text \<open>Property reads on an error value: \<open>undefined\<close> where the value has no such field.\<close>

fun errorCode :: "js_error \<Rightarrow> string option" where
  "errorCode (Structured a) = Some (code a)"
| "errorCode e = None"

fun errorContext :: "js_error \<Rightarrow> ctx option" where
  "errorContext (Structured a) = Some (err_context a)"
| "errorContext e = None"

section \<open>The session store (\<open>useAuth\<close>)\<close>

record auth_user =
  user_id :: string
  email :: string
  email_confirmed :: bool

text \<open>
  \<open>Session\<close> of the identity provider's client library. Its type declares the user
  mandatory, but the source tests for it (\<open>session?.user\<close>) and falls back to \<open>null\<close>
  (\<open>session?.user ?? null\<close>), so a session without a user is a value the store can hold.
\<close>

record session =
  access_token :: string
  refresh_token :: string
  expires_at :: nat
  user :: "auth_user option"

text \<open>
  The four state cells of the hook. The writes of one synchronous segment are batched into
  one update, so a segment is one transition of this record.
\<close>

record auth_state =
  authUser :: "auth_user option"
  session :: "session option"
  isLoading :: bool
  error :: "js_error option"

definition initial_auth_state :: auth_state where
  "initial_auth_state = \<lparr> authUser = None, session = None, isLoading = True, error = None \<rparr>"

text \<open>An awaited call either rejects with a value or resolves with one.\<close>

datatype 'a outcome = Threw js_error | Resolved 'a

text \<open>
  A call that answers with an optional error has failed when it rejects or when the error
  it answers with is truthy (the test \<open>if (error)\<close> of the source).
\<close>

fun failed :: "js_error option outcome \<Rightarrow> bool" where
  "failed (Threw e) = True"
| "failed (Resolved None) = False"
| "failed (Resolved (Some e)) = truthy e"

text \<open>The value such a call failed with, if it failed.\<close>

fun raised :: "js_error option outcome \<Rightarrow> js_error option" where
  "raised (Threw e) = Some e"
| "raised (Resolved None) = None"
| "raised (Resolved (Some e)) = (if truthy e then Some e else None)"

text \<open>
  What one run of \<open>checkSession\<close> meets: the outcomes of the three awaited calls and the
  value of \<open>isMounted\<close> read in the segment after each of them (the flag is only read, and
  the cleanup function is the only writer).
\<close>

record check_env =
  getSession_result :: "session option outcome"
  getUser_result :: "auth_user option outcome"
  signOut_result :: "unit outcome"
  mounted_after_getSession :: bool
  mounted_after_getUser :: bool
  mounted_after_signOut :: bool

definition isRefreshTokenError :: "js_error \<Rightarrow> bool" where
  "isRefreshTokenError e =
     (instanceofError e \<and>
      (str_includes (errorMessage e) ''refresh_token'' \<or>
       str_includes (errorMessage e) ''Refresh Token'' \<or>
       str_includes (errorMessage e) ''Invalid Refresh Token''))"

definition checkSession_ctx :: ctx where
  "checkSession_ctx =
     [(''operation'', CStr ''checkSession''), (''hook'', CStr ''useAuth''),
      (''authErrorType'', CUndefined)]"

text \<open>The \<open>try\<close> block: the value it throws or the state it leaves, with the flag last read.\<close>

definition checkSession_try :: "check_env \<Rightarrow> auth_state \<Rightarrow> (js_error + auth_state) \<times> bool" where
  "checkSession_try env s =
     (case getSession_result env of
        Threw e \<Rightarrow> (Inl e, mounted_after_getSession env)
      | Resolved fetched \<Rightarrow>
          if \<not> mounted_after_getSession env then (Inr s, False)
          else
            (case fetched of
               None \<Rightarrow> (Inr s, True)
             | Some se \<Rightarrow>
                 (case user se of
                    None \<Rightarrow> (Inr (s\<lparr> session := Some se, authUser := None \<rparr>), True)
                  | Some su \<Rightarrow>
                      (case getUser_result env of
                         Threw e \<Rightarrow> (Inl e, mounted_after_getUser env)
                       | Resolved None \<Rightarrow>
                           (case signOut_result env of
                              Threw e \<Rightarrow> (Inl e, mounted_after_signOut env)
                            | Resolved u \<Rightarrow>
                                (Inr (if mounted_after_signOut env
                                      then s\<lparr> session := None, authUser := None \<rparr> else s),
                                 mounted_after_signOut env))
                       | Resolved (Some u) \<Rightarrow>
                           (Inr (if mounted_after_getUser env
                                 then s\<lparr> session := Some se, authUser := user se \<rparr> else s),
                            mounted_after_getUser env)))))"

definition checkSession_catch :: "bool \<Rightarrow> js_error \<Rightarrow> auth_state \<Rightarrow> auth_state" where
  "checkSession_catch isMounted e s =
     (if isRefreshTokenError e
      then (if isMounted then s\<lparr> session := None, authUser := None, error := None \<rparr> else s)
      else (if isMounted then s\<lparr> error := Some (handleError e checkSession_ctx) \<rparr> else s))"

definition checkSession_finally :: "bool \<Rightarrow> auth_state \<Rightarrow> auth_state" where
  "checkSession_finally isMounted s = (if isMounted then s\<lparr> isLoading := False \<rparr> else s)"

definition checkSession_start :: "auth_state \<Rightarrow> auth_state" where
  "checkSession_start s = s\<lparr> isLoading := True \<rparr>"

definition checkSession_settle :: "check_env \<Rightarrow> auth_state \<Rightarrow> auth_state" where
  "checkSession_settle env s =
     (case checkSession_try env s of
        (Inl e, m) \<Rightarrow> checkSession_finally m (checkSession_catch m e s)
      | (Inr s', m) \<Rightarrow> checkSession_finally m s')"

definition checkSession :: "check_env \<Rightarrow> auth_state \<Rightarrow> auth_state" where
  "checkSession env s = checkSession_settle env (checkSession_start s)"

text \<open>
  The cookie \<open>signout-reason=user-not-found\<close> (max age 5 seconds) is written exactly when
  the fetched session has no resolvable user and the sign-out call returns.
\<close>

definition checkSession_sets_cookie :: "check_env \<Rightarrow> bool" where
  "checkSession_sets_cookie env =
     (case getSession_result env of
        Resolved (Some se) \<Rightarrow>
          mounted_after_getSession env \<and> user se \<noteq> None \<and>
          (case getUser_result env of
             Resolved None \<Rightarrow> (case signOut_result env of Resolved u \<Rightarrow> True | _ \<Rightarrow> False)
           | _ \<Rightarrow> False)
      | _ \<Rightarrow> False)"

text \<open>The callback registered with \<open>onAuthStateChange\<close>.\<close>

definition onAuthStateChange :: "bool \<Rightarrow> session option \<Rightarrow> auth_state \<Rightarrow> auth_state" where
  "onAuthStateChange isMounted se s =
     (if isMounted
      then s\<lparr> session := se, authUser := Option.bind se user, isLoading := False \<rparr>
      else s)"

section \<open>The operations of the session store\<close>

text \<open>
  Each of \<open>signIn\<close>, \<open>signInWithProvider\<close>, \<open>signUpWithEmail\<close>, \<open>resetPassword\<close>,
  \<open>updatePassword\<close> and \<open>signOut\<close> has the same frame, in two segments with the awaited
  call of the identity source between them. The first segment, \<open>op_start\<close>, sets the
  loading flag and clears the error. The second runs when the call settles, in whatever
  state the store then has: it computes the returned \<open>{ error }\<close> and clears the loading
  flag in \<open>finally\<close>. Each operation below is its second segment: the value it returns and
  the state it leaves. The identity source's answer is its \<open>error\<close> field (absent: \<open>None\<close>).
\<close>

definition op_start :: "auth_state \<Rightarrow> auth_state" where
  "op_start s = s\<lparr> isLoading := True, error := None \<rparr>"

definition op_finish :: "auth_state \<Rightarrow> auth_state" where
  "op_finish s = s\<lparr> isLoading := False \<rparr>"

definition op_result ::
  "(js_error \<Rightarrow> js_error) \<Rightarrow> (js_error \<Rightarrow> js_error) \<Rightarrow> js_error option outcome \<Rightarrow> js_error option" where
  "op_result onError onThrow r =
     (case r of
        Threw e \<Rightarrow> Some (onThrow e)
      | Resolved None \<Rightarrow> None
      | Resolved (Some e) \<Rightarrow> if truthy e then Some (onError e) else None)"

definition op_settle ::
  "(js_error \<Rightarrow> js_error) \<Rightarrow> (js_error \<Rightarrow> js_error) \<Rightarrow> js_error option outcome \<Rightarrow>
   auth_state \<Rightarrow> js_error option \<times> auth_state" where
  "op_settle onError onThrow r s = (op_result onError onThrow r, op_finish s)"

definition signIn :: "string \<Rightarrow> js_error option outcome \<Rightarrow> auth_state \<Rightarrow> js_error option \<times> auth_state" where
  "signIn email_arg =
     op_settle
       (\<lambda>e. if isAppError e then e
            else handleError e
                   [(''operation'', CStr ''signIn''), (''email'', CStr email_arg), (''hook'', CStr ''useAuth'')])
       (\<lambda>e. handleError e
              [(''operation'', CStr ''signIn''), (''email'', CStr email_arg),
               (''unexpected'', CBool True), (''hook'', CStr ''useAuth'')])"

definition signInWithProvider ::
  "string \<Rightarrow> js_error option outcome \<Rightarrow> auth_state \<Rightarrow> js_error option \<times> auth_state" where
  "signInWithProvider provider =
     op_settle
       (\<lambda>e. handleError e
              [(''operation'', CStr ''signInWithProvider''), (''provider'', CStr provider),
               (''hook'', CStr ''useAuth'')])
       (\<lambda>e. handleError e
              [(''operation'', CStr ''signInWithProvider''), (''provider'', CStr provider),
               (''unexpected'', CBool True), (''hook'', CStr ''useAuth'')])"

definition signUpWithEmail ::
  "string \<Rightarrow> js_error option outcome \<Rightarrow> auth_state \<Rightarrow> js_error option \<times> auth_state" where
  "signUpWithEmail email_arg =
     op_settle
       (\<lambda>e. handleError e
              [(''operation'', CStr ''signUpWithEmail''), (''email'', CStr email_arg),
               (''hook'', CStr ''useAuth'')])
       (\<lambda>e. handleError e
              [(''operation'', CStr ''signUpWithEmail''), (''email'', CStr email_arg),
               (''unexpected'', CBool True), (''hook'', CStr ''useAuth'')])"

definition resetPassword ::
  "string \<Rightarrow> js_error option outcome \<Rightarrow> auth_state \<Rightarrow> js_error option \<times> auth_state" where
  "resetPassword email_arg =
     op_settle
       (\<lambda>e. handleError e
              [(''operation'', CStr ''resetPassword''), (''email'', CStr email_arg),
               (''hook'', CStr ''useAuth'')])
       (\<lambda>e. handleError e
              [(''operation'', CStr ''resetPassword''), (''email'', CStr email_arg),
               (''unexpected'', CBool True), (''hook'', CStr ''useAuth'')])"

definition updatePassword ::
  "js_error option outcome \<Rightarrow> auth_state \<Rightarrow> js_error option \<times> auth_state" where
  "updatePassword =
     op_settle
       (\<lambda>e. handleError e [(''operation'', CStr ''updatePassword''), (''hook'', CStr ''useAuth'')])
       (\<lambda>e. handleError e
              [(''operation'', CStr ''updatePassword''), (''unexpected'', CBool True),
               (''hook'', CStr ''useAuth'')])"

definition signOut ::
  "js_error option outcome \<Rightarrow> auth_state \<Rightarrow> js_error option \<times> auth_state" where
  "signOut =
     op_settle
       (\<lambda>e. handleError e [(''operation'', CStr ''signOut''), (''hook'', CStr ''useAuth'')])
       (\<lambda>e. handleError e
              [(''operation'', CStr ''signOut''), (''unexpected'', CBool True),
               (''hook'', CStr ''useAuth'')])"

text \<open>
  \<open>refreshSession\<close> starts like the operations and, when \<open>getSession\<close> settles, writes
  the fetched session without consulting \<open>isMounted\<close>.
\<close>

definition refreshSession_settle :: "session option outcome \<Rightarrow> auth_state \<Rightarrow> auth_state" where
  "refreshSession_settle r s =
     op_finish
       (case r of
          Resolved se \<Rightarrow> s\<lparr> session := se, authUser := Option.bind se user \<rparr>
        | Threw e \<Rightarrow>
            s\<lparr> error := Some (handleError e
                 [(''operation'', CStr ''refreshSession''), (''unexpected'', CBool True),
                  (''hook'', CStr ''useAuth'')]) \<rparr>)"

definition refreshSession :: "session option outcome \<Rightarrow> auth_state \<Rightarrow> auth_state" where
  "refreshSession r s = refreshSession_settle r (op_start s)"

definition clearError :: "auth_state \<Rightarrow> auth_state" where
  "clearError s = s\<lparr> error := None \<rparr>"

text \<open>
  The store's life: every synchronous segment that writes the state is one event. The
  awaits of \<open>checkSession\<close>, of the six operations and of \<open>refreshSession\<close> separate a
  starting segment from a settling one, and any other event may fall in between.
\<close>

datatype event =
    CheckSessionStart
  | CheckSessionSettle check_env
  | AuthStateChange bool "session option"
  | OpStart
  | OpFinish
  | RefreshSettle "session option outcome"
  | ClearError

fun step :: "event \<Rightarrow> auth_state \<Rightarrow> auth_state" where
  "step CheckSessionStart s = checkSession_start s"
| "step (CheckSessionSettle env) s = checkSession_settle env s"
| "step (AuthStateChange m se) s = onAuthStateChange m se s"
| "step OpStart s = op_start s"
| "step OpFinish s = op_finish s"
| "step (RefreshSettle r) s = refreshSession_settle r s"
| "step ClearError s = clearError s"


section \<open>Query strings\<close>

text \<open>
  \<open>URLSearchParams\<close>: an ordered list of pairs. \<open>get\<close> reads the first value of a key,
  \<open>delete\<close> removes every pair of the key, \<open>set\<close> overwrites the first pair of the key and
  removes the others, or appends a pair when the key is new.
\<close>

type_synonym query = "(string \<times> string) list"

definition qget :: "query \<Rightarrow> string \<Rightarrow> string option" where
  "qget q k = map_of q k"

definition qdelete :: "query \<Rightarrow> string \<Rightarrow> query" where
  "qdelete q k = filter (\<lambda>p. fst p \<noteq> k) q"

fun qset :: "query \<Rightarrow> string \<Rightarrow> string \<Rightarrow> query" where
  "qset [] k v = [(k, v)]"
| "qset (p # q) k v = (if fst p = k then (k, v) # qdelete q k else p # qset q k v)"

text \<open>A string read from a query is falsy when it is absent or empty.\<close>

fun present :: "string option \<Rightarrow> bool" where
  "present None = False"
| "present (Some v) = (v \<noteq> [])"

section \<open>The adaptive form (\<open>AuthForm\<close>)\<close>

datatype auth_operation = LOGIN | REGISTER | FORGOT_PASSWORD | RESET_PASSWORD | UPDATE_PASSWORD

text \<open>
  Modelled from the spec: the string values of \<open>AuthOperationsEnum\<close> (\<open>@/types/enums\<close>) are
  not among the sources. Spec 6 lists the values of the \<open>op\<close> parameter.
\<close>

fun op_value :: "auth_operation \<Rightarrow> string" where
  "op_value LOGIN = ''login''"
| "op_value REGISTER = ''register''"
| "op_value FORGOT_PASSWORD = ''forgot-password''"
| "op_value RESET_PASSWORD = ''reset-password''"
| "op_value UPDATE_PASSWORD = ''update-password''"

datatype field_value = FStr string | FBool bool

type_synonym form_values = "(string \<times> field_value) list"

fun authFormDefaults :: "auth_operation \<Rightarrow> form_values" where
  "authFormDefaults LOGIN = [(''email'', FStr []), (''password'', FStr [])]"
| "authFormDefaults REGISTER =
     [(''email'', FStr []), (''password'', FStr []), (''confirmPassword'', FStr []),
      (''name'', FStr []), (''acceptTerms'', FBool False)]"
| "authFormDefaults FORGOT_PASSWORD = [(''email'', FStr [])]"
| "authFormDefaults RESET_PASSWORD = [(''password'', FStr []), (''confirmPassword'', FStr [])]"
| "authFormDefaults UPDATE_PASSWORD =
     [(''currentPassword'', FStr []), (''newPassword'', FStr []), (''confirmPassword'', FStr [])]"

text \<open>
  The component's state, with the two things it shares with its surroundings: the page's
  query (what \<open>useSearchParams\<close> returns and \<open>router.replace\<close> rewrites) and the targets
  handed to \<open>router.push\<close>. \<open>formValues\<close> are the values held by the form library, which
  its \<open>reset\<close> replaces by the object it is given.
\<close>

record form_state =
  operation :: auth_operation
  formError :: "js_error option"
  formLoading :: bool
  isRedirecting :: bool
  emailSent :: bool
  formValues :: form_values
  searchParams :: query
  pushed :: "string list"

definition newOperation :: "string option \<Rightarrow> auth_operation" where
  "newOperation op =
     (if op = Some (op_value LOGIN) then LOGIN
      else if op = Some (op_value REGISTER) then REGISTER
      else if op = Some (op_value FORGOT_PASSWORD) then FORGOT_PASSWORD
      else if op = Some (op_value RESET_PASSWORD) then RESET_PASSWORD
      else if op = Some (op_value UPDATE_PASSWORD) then UPDATE_PASSWORD
      else LOGIN)"

definition operationEffect :: "form_state \<Rightarrow> form_state" where
  "operationEffect st =
     (let op = map_option toLowerCase (qget (searchParams st) ''op'');
          new = newOperation op
      in if new \<noteq> operation st
         then st\<lparr> operation := new, formValues := authFormDefaults new,
                  formError := None, emailSent := False \<rparr>
         else st)"

definition handleOperationChange :: "auth_operation \<Rightarrow> form_state \<Rightarrow> form_state" where
  "handleOperationChange new st = st\<lparr> searchParams := qset (searchParams st) ''op'' (op_value new) \<rparr>"

text \<open>A server action returns \<open>{ success, error? }\<close>, the error a string or an \<open>AppError\<close>.\<close>

record action_result =
  success :: bool
  result_error :: "js_error option"

text \<open>
  \<open>typeof result.error === 'string' ? result.error : result.error?.message || fallback\<close>
\<close>

fun failureMessage :: "js_error option \<Rightarrow> string \<Rightarrow> string" where
  "failureMessage None fallback = fallback"
| "failureMessage (Some (Text s)) fallback = s"
| "failureMessage (Some e) fallback = (if errorMessage e = [] then fallback else errorMessage e)"

text \<open>
  What one submission meets: the outcome of the backend call of each operation (only the
  one of the active operation is consulted). The submitted field values travel to that
  call only. \<open>updatePassword_result\<close> is the \<open>{ error }\<close> returned by the session store.
  The call of the store's \<open>clearError\<close> at the start of a submission acts on the store
  (\<open>clearError\<close> above), not on this component's state.
\<close>

record submit_env =
  signInWithEmail_result :: "action_result outcome"
  signUpWithEmail_result :: "action_result outcome"
  requestPasswordReset_result :: "action_result outcome"
  updateUserPassword_result :: "action_result outcome"
  updatePassword_result :: "js_error option outcome"

definition truthyCtx :: "ctx_value option \<Rightarrow> bool" where
  "truthyCtx v =
     (case v of
        Some (CBool b) \<Rightarrow> b
      | Some (CStr t) \<Rightarrow> t \<noteq> []
      | Some (CError m) \<Rightarrow> True
      | _ \<Rightarrow> False)"

text \<open>
  \<open>appError.context && 'shouldSwitchToLogin' in appError.context &&
  appError.context.shouldSwitchToLogin\<close>
\<close>

definition shouldSwitchToLogin :: "js_error \<Rightarrow> bool" where
  "shouldSwitchToLogin e =
     (case errorContext e of
        None \<Rightarrow> False
      | Some c \<Rightarrow> ctxGet c ''shouldSwitchToLogin'' \<noteq> None \<and> truthyCtx (ctxGet c ''shouldSwitchToLogin''))"

text \<open>The body of the \<open>switch\<close>: the value thrown, or the state when the case leaves.\<close>

definition submit_try :: "submit_env \<Rightarrow> form_state \<Rightarrow> js_error + form_state" where
  "submit_try env st =
     (case operation st of
        LOGIN \<Rightarrow>
          (case signInWithEmail_result env of
             Threw e \<Rightarrow> Inl e
           | Resolved r \<Rightarrow>
               if \<not> success r then
                 (let msg = failureMessage (result_error r) ''Login failed'';
                      errCode = (if str_includes msg ''Invalid email''
                                   then ''AUTH/INVALID_CREDENTIALS'' else ''AUTH/UNKNOWN'');
                      appError = handleError (PlainError msg)
                                   [(''operation'', CStr ''login''), (''code'', CStr errCode)]
                  in Inr (st\<lparr> formError := Some appError \<rparr>))
               else Inr (st\<lparr> isRedirecting := True, pushed := pushed st @ [''/profile''] \<rparr>))
      | REGISTER \<Rightarrow>
          (case signUpWithEmail_result env of
             Threw e \<Rightarrow> Inl e
           | Resolved r \<Rightarrow>
               if \<not> success r then
                 (let msg = failureMessage (result_error r) ''Registration failed'';
                      duplicate = (str_includes (toLowerCase msg) ''already registered'' \<or>
                                   str_includes (toLowerCase msg) ''already in use'');
                      errCode = (if duplicate then ''AUTH/EMAIL_ALREADY_IN_USE'' else ''AUTH/UNKNOWN'');
                      errCtx = (if duplicate then [(''shouldSwitchToLogin'', CBool True)] else []);
                      appError = handleError (PlainError msg)
                                   ([(''operation'', CStr ''signup''), (''code'', CStr errCode)]
                                    @ errCtx)
                  in if shouldSwitchToLogin appError
                     then Inr (handleOperationChange LOGIN st)
                     else Inr (st\<lparr> formError := Some appError \<rparr>))
               else Inr (st\<lparr> isRedirecting := True, pushed := pushed st @ [''/auth/confirm''] \<rparr>))
      | FORGOT_PASSWORD \<Rightarrow>
          (case requestPasswordReset_result env of
             Threw e \<Rightarrow> Inl e
           | Resolved r \<Rightarrow>
               if \<not> success r then
                 (let msg = failureMessage (result_error r) ''Password reset failed'';
                      appError = handleError (PlainError msg)
                                   [(''operation'', CStr ''resetPassword'')]
                  in Inr (st\<lparr> formError := Some appError \<rparr>))
               else Inr (st\<lparr> emailSent := True \<rparr>))
      | RESET_PASSWORD \<Rightarrow>
          (case updatePassword_result env of
             Threw e \<Rightarrow> Inl e
           | Resolved err \<Rightarrow>
               (case err of
                  Some e \<Rightarrow>
                    if truthy e then Inr (st\<lparr> formError := Some e \<rparr>)
                    else Inr (st\<lparr> isRedirecting := True, pushed := pushed st @ [''/profile''] \<rparr>)
                | None \<Rightarrow> Inr (st\<lparr> isRedirecting := True, pushed := pushed st @ [''/profile''] \<rparr>)))
      | UPDATE_PASSWORD \<Rightarrow>
          (case updateUserPassword_result env of
             Threw e \<Rightarrow> Inl e
           | Resolved r \<Rightarrow>
               if \<not> success r then
                 (let msg = failureMessage (result_error r) ''Password update failed'';
                      appError = handleError (PlainError msg)
                                   [(''operation'', CStr ''updatePassword'')]
                  in Inr (st\<lparr> formError := Some appError \<rparr>))
               else Inr (st\<lparr> isRedirecting := True, pushed := pushed st @ [''/profile''] \<rparr>)))"

definition submit_start :: "form_state \<Rightarrow> form_state" where
  "submit_start st = st\<lparr> formLoading := True, isRedirecting := False, formError := None \<rparr>"

definition handleFormSubmit :: "submit_env \<Rightarrow> form_state \<Rightarrow> form_state" where
  "handleFormSubmit env st =
     (let st1 = submit_start st;
          st2 = (case submit_try env st1 of
                   Inr st' \<Rightarrow> st'
                 | Inl e \<Rightarrow>
                     st1\<lparr> formError := Some (handleError e
                            [(''operation'', CStr (op_value (operation st1))),
                             (''originalError'', CError (errorMessage e))]) \<rparr>)
      in st2\<lparr> formLoading := False \<rparr>)"

text \<open>The error panel is rendered exactly when the error state is set.\<close>

definition errorPanelShown :: "form_state \<Rightarrow> bool" where
  "errorPanelShown st = (formError st \<noteq> None)"

definition getErrorMessage :: "js_error \<Rightarrow> string" where
  "getErrorMessage e =
     (if errorCode e = Some ''AUTH/INVALID_CREDENTIALS''
      then ''Invalid email or password. Please check your credentials and try again.''
      else if errorCode e = Some ''AUTH/EMAIL_ALREADY_IN_USE''
      then ''This email is already registered. Please sign in instead.''
      else errorMessage e)"

section \<open>The confirmation view (\<open>ConfirmEmailView\<close>)\<close>

datatype confirm_status = StatusLoading | StatusSuccess | StatusError

text \<open>
  The object returned by \<open>useSearchParams\<close>: its identity (what the effect's dependency
  array compares with \<open>Object.is\<close>) and its pairs. The hook may return \<open>null\<close>.
\<close>

record search_params =
  sp_ident :: nat
  sp_entries :: query

text \<open>
  The view's state, the exchanges sent to the identity provider so far (token hash and
  type), and the dependency the effect last ran with (\<open>None\<close> before the first run).
\<close>

record confirm_state =
  status :: confirm_status
  statusMessage :: string
  exchanges :: "(string \<times> string) list"
  lastDeps :: "nat option option"

definition initial_confirm_state :: confirm_state where
  "initial_confirm_state =
     \<lparr> status = StatusLoading, statusMessage = [], exchanges = [], lastDeps = None \<rparr>"

definition sp_get :: "search_params option \<Rightarrow> string \<Rightarrow> string option" where
  "sp_get sp k = (case sp of None \<Rightarrow> None | Some p \<Rightarrow> qget (sp_entries p) k)"

definition hasInvalidToken :: "search_params option \<Rightarrow> bool" where
  "hasInvalidToken sp = (\<not> present (sp_get sp ''token_hash'') \<or> \<not> present (sp_get sp ''type''))"

text \<open>\<open>verify\<close>: the call of \<open>verifyOtp\<close> and what its answer does to the state.\<close>

definition verify :: "string \<Rightarrow> string \<Rightarrow> js_error option outcome \<Rightarrow> confirm_state \<Rightarrow> confirm_state" where
  "verify token_hash type answer st =
     (let sent = st\<lparr> exchanges := exchanges st @ [(token_hash, type)] \<rparr>
      in case answer of
           Threw e \<Rightarrow>
             sent\<lparr> status := StatusError, statusMessage := ''Unexpected error during confirmation.'' \<rparr>
         | Resolved None \<Rightarrow>
             sent\<lparr> status := StatusSuccess, statusMessage := ''Email confirmed! You can now log in.'' \<rparr>
         | Resolved (Some err) \<Rightarrow>
             if truthy err
             then sent\<lparr> status := StatusError,
                        statusMessage := (case messageProperty err of
                                            None \<Rightarrow> ''Failed to confirm email.''
                                          | Some m \<Rightarrow> if m = [] then ''Failed to confirm email.'' else m) \<rparr>
             else sent\<lparr> status := StatusSuccess,
                        statusMessage := ''Email confirmed! You can now log in.'' \<rparr>)"

text \<open>The body of the effect.\<close>

definition verifyEffect :: "search_params option \<Rightarrow> js_error option outcome \<Rightarrow> confirm_state \<Rightarrow> confirm_state" where
  "verifyEffect sp answer st =
     (case (sp_get sp ''token_hash'', sp_get sp ''type'') of
        (Some token_hash, Some type) \<Rightarrow>
          if token_hash = [] \<or> type = [] then st else verify token_hash type answer st
      | _ \<Rightarrow> st)"

text \<open>
  A render with the effect that follows it: the effect has the dependency array
  \<open>[searchParams]\<close>, so it runs after the first render and after every render whose
  \<open>searchParams\<close> is not the object of the previous run.
\<close>

definition render :: "search_params option \<Rightarrow> js_error option outcome \<Rightarrow> confirm_state \<Rightarrow> confirm_state" where
  "render sp answer st =
     (if lastDeps st = Some (map_option sp_ident sp) then st
      else verifyEffect sp answer (st\<lparr> lastDeps := Some (map_option sp_ident sp) \<rparr>))"

section \<open>The recovery redirect endpoint (\<open>GET\<close>)\<close>










section \<open>Sample inputs\<close>

definition sample_user :: auth_user where
  "sample_user = \<lparr> user_id = ''u1'', email = ''user@test.com'', email_confirmed = True \<rparr>"

definition sample_session :: session where
  "sample_session =
     \<lparr> access_token = ''at'', refresh_token = ''rt'', expires_at = 3600, user = Some sample_user \<rparr>"


definition signed_in_state :: auth_state where
  "signed_in_state =
     \<lparr> authUser = Some sample_user, session = Some sample_session, isLoading = False,
       error = Some (PlainError ''stale'') \<rparr>"

definition refresh_failure_env :: check_env where
  "refresh_failure_env =
     \<lparr> getSession_result = Threw (PlainError ''Invalid Refresh Token: Already Used''),
       getUser_result = Resolved None, signOut_result = Resolved (),
       mounted_after_getSession = True, mounted_after_getUser = True,
       mounted_after_signOut = True \<rparr>"

definition network_failure_env :: check_env where
  "network_failure_env =
     \<lparr> getSession_result = Threw (PlainError ''network down''),
       getUser_result = Resolved None, signOut_result = Resolved (),
       mounted_after_getSession = True, mounted_after_getUser = True,
       mounted_after_signOut = True \<rparr>"

definition no_session_env :: check_env where
  "no_session_env =
     \<lparr> getSession_result = Resolved None,
       getUser_result = Resolved None, signOut_result = Resolved (),
       mounted_after_getSession = True, mounted_after_getUser = True,
       mounted_after_signOut = True \<rparr>"

definition register_state :: form_state where
  "register_state =
     \<lparr> operation = REGISTER, formError = Some (PlainError ''stale''), formLoading = False,
       isRedirecting = False, emailSent = True,
       formValues = [(''email'', FStr ''user@test.com''), (''password'', FStr ''secret'')],
       searchParams = [(''op'', ''register'')], pushed = [] \<rparr>"


definition failing_action :: "string \<Rightarrow> action_result outcome" where
  "failing_action m = Resolved \<lparr> success = False, result_error = Some (Text m) \<rparr>"

definition submit_env_of :: "action_result outcome \<Rightarrow> submit_env" where
  "submit_env_of a =
     \<lparr> signInWithEmail_result = a, signUpWithEmail_result = a, requestPasswordReset_result = a,
       updateUserPassword_result = a, updatePassword_result = Resolved None \<rparr>"

definition structured_sample :: js_error where
  "structured_sample =
     Structured \<lparr> message = ''Too many requests'', code = ''AUTH/RATE_LIMIT'',
                  err_context = [(''operation'', CStr ''signIn'')], isOperational = True \<rparr>"

definition link_params :: "nat \<Rightarrow> search_params" where
  "link_params i = \<lparr> sp_ident = i, sp_entries = [(''token_hash'', ''abc''), (''type'', ''email'')] \<rparr>"







section \<open>Lemmas on query strings and operation names\<close>



lemma qget_qset_same: "qget (qset q k v) k = Some v"
  by (induction q) (auto simp: qget_def)


lemma lower_login: "toLowerCase ''login'' = ''login''"
  by (simp add: toLowerCase_def lowerChar_def)

lemma lower_op_value: "toLowerCase (op_value B) = op_value B"
  by (cases B) (simp_all add: toLowerCase_def lowerChar_def)

lemma newOperation_op_value: "newOperation (Some (op_value B)) = B"
  by (cases B) (simp_all add: newOperation_def)

section \<open>The session store\<close>

text \<open>
  C1. When the initial session check throws a refresh-token failure (an \<open>Error\<close> whose
  message contains one of the refresh-token substrings) while the hook is mounted, the
  store is cleared and no error is surfaced: session, user and error are all null.
\<close>

theorem refresh_token_failure_silent:
  assumes "checkSession_try env (checkSession_start s) = (Inl e, True)"
    and "isRefreshTokenError e"
  shows "session (checkSession env s) = None \<and> authUser (checkSession env s) = None \<and>
         error (checkSession env s) = None"
  using assms
  by (simp add: checkSession_def checkSession_settle_def checkSession_catch_def
      checkSession_finally_def)

theorem refresh_token_failure_silent_witness:
  "checkSession_try refresh_failure_env (checkSession_start signed_in_state) =
     (Inl (PlainError ''Invalid Refresh Token: Already Used''), True) \<and>
   isRefreshTokenError (PlainError ''Invalid Refresh Token: Already Used'') \<and>
   session signed_in_state \<noteq> None \<and> error signed_in_state \<noteq> None \<and>
   session (checkSession refresh_failure_env signed_in_state) = None \<and>
   authUser (checkSession refresh_failure_env signed_in_state) = None \<and>
   error (checkSession refresh_failure_env signed_in_state) = None"
proof -
  have thrown: "checkSession_try refresh_failure_env (checkSession_start signed_in_state) =
                  (Inl (PlainError ''Invalid Refresh Token: Already Used''), True)"
    by (simp add: checkSession_try_def refresh_failure_env_def)
  have refresh: "isRefreshTokenError (PlainError ''Invalid Refresh Token: Already Used'')"
    by (simp add: isRefreshTokenError_def)
  have before: "session signed_in_state \<noteq> None \<and> error signed_in_state \<noteq> None"
    by (simp add: signed_in_state_def)
  show ?thesis
    using thrown refresh before refresh_token_failure_silent [OF thrown refresh] by simp
qed

lemma op_settle_keeps_error: "error (snd (op_settle f g r s)) = error s"
  by (simp add: op_settle_def op_finish_def)

lemma handleError_structured: "isAppError e \<Longrightarrow> handleError e c = e"
  by (simp add: handleError_def)

lemma op_settle_classifies:
  assumes "raised r = Some e"
    and "f e = handleError e c1" and "g e = handleError e c2"
  shows "\<exists>c. fst (op_settle f g r s) = Some (handleError e c)"
proof (cases r)
  case (Threw x)
  with assms show ?thesis by (auto simp: op_settle_def op_result_def)
next
  case (Resolved x)
  with assms show ?thesis
    by (cases x) (auto simp: op_settle_def op_result_def split: if_splits)
qed

text \<open>
  C4, as the code has it. Each of the six operations clears the store's error field in
  its first segment, before the call, and does not write it when the call settles: the
  failure the call raised is returned to the caller, classified, as \<open>{ error }\<close>, and the
  error field keeps the value it has at that moment. The error field is populated by the
  initial session check, for a failure that is no refresh-token failure, and by
  \<open>refreshSession\<close>.
\<close>

theorem operations_return_error_only:
  "error (op_start s) = None \<and>
   error (snd (signIn em r s)) = error s \<and>
   error (snd (signInWithProvider pr r s)) = error s \<and>
   error (snd (signUpWithEmail em r s)) = error s \<and>
   error (snd (resetPassword em r s)) = error s \<and>
   error (snd (updatePassword r s)) = error s \<and>
   error (snd (signOut r s)) = error s \<and>
   (raised r = Some x \<longrightarrow>
      (\<exists>c. fst (signIn em r s) = Some (handleError x c)) \<and>
      (\<exists>c. fst (signInWithProvider pr r s) = Some (handleError x c)) \<and>
      (\<exists>c. fst (signUpWithEmail em r s) = Some (handleError x c)) \<and>
      (\<exists>c. fst (resetPassword em r s) = Some (handleError x c)) \<and>
      (\<exists>c. fst (updatePassword r s) = Some (handleError x c)) \<and>
      (\<exists>c. fst (signOut r s) = Some (handleError x c))) \<and>
   (checkSession_try env s = (Inl e, True) \<and> \<not> isRefreshTokenError e \<longrightarrow>
      error (checkSession_settle env s) = Some (handleError e checkSession_ctx)) \<and>
   error (refreshSession_settle (Threw e) s) =
     Some (handleError e [(''operation'', CStr ''refreshSession''), (''unexpected'', CBool True),
                          (''hook'', CStr ''useAuth'')])"
proof -
  have start: "error (op_start s) = None"
    by (simp add: op_start_def)
  have keep: "error (snd (op_settle f g r s)) = error s" for f g
    by (rule op_settle_keeps_error)
  have pass: "(if isAppError x then x else handleError x c) = handleError x c" for c
    by (simp add: handleError_structured)
  have ret: "\<exists>c. fst (op_settle f g r s) = Some (handleError x c)"
    if "raised r = Some x" "f x = handleError x c1" "g x = handleError x c2" for f g c1 c2
    using that by (rule op_settle_classifies)
  have chk: "error (checkSession_settle env s) = Some (handleError e checkSession_ctx)"
    if "checkSession_try env s = (Inl e, True)" "\<not> isRefreshTokenError e"
    using that
    by (simp add: checkSession_settle_def checkSession_catch_def checkSession_finally_def)
  have rfr: "error (refreshSession_settle (Threw e) s) =
     Some (handleError e [(''operation'', CStr ''refreshSession''), (''unexpected'', CBool True),
                          (''hook'', CStr ''useAuth'')])"
    by (simp add: refreshSession_settle_def op_finish_def)
  have r1: "\<exists>c. fst (signIn em r s) = Some (handleError x c)" if "raised r = Some x"
    unfolding signIn_def by (rule ret [OF that]) (simp_all add: pass)
  have r2: "\<exists>c. fst (signInWithProvider pr r s) = Some (handleError x c)" if "raised r = Some x"
    unfolding signInWithProvider_def by (rule ret [OF that]) simp_all
  have r3: "\<exists>c. fst (signUpWithEmail em r s) = Some (handleError x c)" if "raised r = Some x"
    unfolding signUpWithEmail_def by (rule ret [OF that]) simp_all
  have r4: "\<exists>c. fst (resetPassword em r s) = Some (handleError x c)" if "raised r = Some x"
    unfolding resetPassword_def by (rule ret [OF that]) simp_all
  have r5: "\<exists>c. fst (updatePassword r s) = Some (handleError x c)" if "raised r = Some x"
    unfolding updatePassword_def by (rule ret [OF that]) simp_all
  have r6: "\<exists>c. fst (signOut r s) = Some (handleError x c)" if "raised r = Some x"
    unfolding signOut_def by (rule ret [OF that]) simp_all
  have k: "error (snd (signIn em r s)) = error s \<and>
   error (snd (signInWithProvider pr r s)) = error s \<and>
   error (snd (signUpWithEmail em r s)) = error s \<and>
   error (snd (resetPassword em r s)) = error s \<and>
   error (snd (updatePassword r s)) = error s \<and>
   error (snd (signOut r s)) = error s"
    unfolding signIn_def signInWithProvider_def signUpWithEmail_def resetPassword_def
      updatePassword_def signOut_def
    using keep by simp
  show ?thesis
    using start k r1 r2 r3 r4 r5 r6 chk rfr by blast
qed

theorem operations_return_error_only_witness:
  "raised (Threw (PlainError ''network down'')) = Some (PlainError ''network down'') \<and>
   error signed_in_state \<noteq> None \<and>
   error (op_start signed_in_state) = None \<and>
   error (snd (signOut (Threw (PlainError ''network down'')) (op_start signed_in_state))) = None \<and>
   error (snd (signOut (Threw (PlainError ''network down'')) signed_in_state)) = error signed_in_state \<and>
   fst (signOut (Threw (PlainError ''network down'')) signed_in_state) \<noteq> None \<and>
   checkSession_try network_failure_env initial_auth_state =
     (Inl (PlainError ''network down''), True) \<and>
   \<not> isRefreshTokenError (PlainError ''network down'') \<and>
   error (checkSession_settle network_failure_env initial_auth_state) =
     Some (handleError (PlainError ''network down'') checkSession_ctx)"
proof -
  have f: "raised (Threw (PlainError ''network down'')) = Some (PlainError ''network down'')"
    by simp
  have before: "error signed_in_state \<noteq> None" by (simp add: signed_in_state_def)
  have thrown: "checkSession_try network_failure_env initial_auth_state =
     (Inl (PlainError ''network down''), True)"
    by (simp add: checkSession_try_def network_failure_env_def)
  have other: "\<not> isRefreshTokenError (PlainError ''network down'')"
    by (simp add: isRefreshTokenError_def)
  show ?thesis
    using f before thrown other
      operations_return_error_only [of signed_in_state "''a''"
        "Threw (PlainError ''network down'')" "''github''" "PlainError ''network down''"
        network_failure_env "PlainError ''network down''"]
      operations_return_error_only [of "op_start signed_in_state" "''a''"
        "Threw (PlainError ''network down'')" "''github''" "PlainError ''network down''"
        network_failure_env "PlainError ''network down''"]
      operations_return_error_only [of initial_auth_state "''a''"
        "Threw (PlainError ''network down'')" "''github''" "PlainError ''network down''"
        network_failure_env "PlainError ''network down''"]
    by auto
qed

text \<open>
  C4, as the spec has it, fails: a sign-in rejected by the identity source with a message
  that is no refresh-token failure is returned to the caller, and the store's error field
  is null when the operation has finished.
\<close>

theorem operations_populate_error_counterexample:
  "failed (Resolved (Some (PlainError ''Invalid login credentials''))) \<and>
   \<not> isRefreshTokenError (PlainError ''Invalid login credentials'') \<and>
   fst (signIn ''user@test.com'' (Resolved (Some (PlainError ''Invalid login credentials'')))
          (op_start initial_auth_state)) \<noteq> None \<and>
   error (snd (signIn ''user@test.com'' (Resolved (Some (PlainError ''Invalid login credentials'')))
          (op_start initial_auth_state))) = None"
  by (simp add: isRefreshTokenError_def signIn_def op_settle_def op_result_def op_finish_def
      op_start_def initial_auth_state_def handleError_def)







text \<open>
  C10, as the code has it. When the initial session check resolves with no session, it
  leaves the store's session and user as they are; when it does not throw, it writes
  them only if a session was fetched. On a signed-out result the store is cleared by the
  subscription's callback and by \<open>refreshSession\<close>.
\<close>

theorem null_session_frame:
  "(getSession_result env = Resolved None \<longrightarrow>
      session (checkSession_settle env s) = session s \<and>
      authUser (checkSession_settle env s) = authUser s \<and>
      session (checkSession env s) = session s \<and>
      authUser (checkSession env s) = authUser s) \<and>
   (checkSession_try env s = (Inr s', m) \<and> (session s' \<noteq> session s \<or> authUser s' \<noteq> authUser s) \<longrightarrow>
      (\<exists>se. getSession_result env = Resolved (Some se))) \<and>
   session (onAuthStateChange True None s) = None \<and>
   authUser (onAuthStateChange True None s) = None \<and>
   session (refreshSession_settle (Resolved None) s) = None \<and>
   authUser (refreshSession_settle (Resolved None) s) = None"
proof -
  have frame: "session (checkSession_settle env s) = session s \<and>
      authUser (checkSession_settle env s) = authUser s \<and>
      session (checkSession env s) = session s \<and>
      authUser (checkSession env s) = authUser s" if "getSession_result env = Resolved None"
    using that
    by (simp add: checkSession_def checkSession_settle_def checkSession_try_def
        checkSession_finally_def checkSession_start_def)
  have only: "\<exists>se. getSession_result env = Resolved (Some se)"
    if "checkSession_try env s = (Inr s', m)" "session s' \<noteq> session s \<or> authUser s' \<noteq> authUser s"
    using that
    by (auto simp: checkSession_try_def split: outcome.splits option.splits if_splits)
  have clear: "session (onAuthStateChange True None s) = None \<and>
   authUser (onAuthStateChange True None s) = None \<and>
   session (refreshSession_settle (Resolved None) s) = None \<and>
   authUser (refreshSession_settle (Resolved None) s) = None"
    by (simp add: onAuthStateChange_def refreshSession_settle_def op_finish_def)
  show ?thesis using frame only clear by blast
qed

theorem null_session_frame_witness:
  "getSession_result no_session_env = Resolved None \<and>
   session (checkSession no_session_env signed_in_state) = Some sample_session \<and>
   authUser (checkSession no_session_env signed_in_state) = Some sample_user \<and>
   session (onAuthStateChange True None signed_in_state) = None"
proof -
  have h: "getSession_result no_session_env = Resolved None"
    by (simp add: no_session_env_def)
  show ?thesis
    using h null_session_frame [of no_session_env signed_in_state]
    by (simp add: signed_in_state_def)
qed

text \<open>
  C10, as the spec has it, fails in its last part: besides the subscription,
  \<open>refreshSession\<close> clears a signed-in store when it fetches no session.
\<close>

theorem null_session_frame_counterexample:
  "session (step (AuthStateChange True (Some sample_session)) initial_auth_state)
     = Some sample_session \<and>
   session (step (RefreshSettle (Resolved None))
              (step (AuthStateChange True (Some sample_session)) initial_auth_state)) = None \<and>
   authUser (step (RefreshSettle (Resolved None))
              (step (AuthStateChange True (Some sample_session)) initial_auth_state)) = None"
  by (simp add: onAuthStateChange_def refreshSession_settle_def op_finish_def)

section \<open>Error classification\<close>

text \<open>
  C7. Classification is idempotent: a value that is already a structured error is returned
  as it is, by the classifier and by the classification step of \<open>signIn\<close>.
\<close>

theorem classification_idempotent:
  assumes "isAppError e"
  shows "handleError e c = e \<and> fst (signIn em (Resolved (Some e)) s) = Some e"
  using assms by (cases e) (simp_all add: handleError_def signIn_def op_settle_def op_result_def)

theorem classification_idempotent_witness:
  "isAppError structured_sample \<and>
   handleError structured_sample [(''operation'', CStr ''signIn'')] = structured_sample \<and>
   fst (signIn ''user@test.com'' (Resolved (Some structured_sample)) initial_auth_state)
     = Some structured_sample"
proof -
  have h: "isAppError structured_sample" by (simp add: structured_sample_def)
  show ?thesis
    using h classification_idempotent [OF h, of "[(''operation'', CStr ''signIn'')]"
        "''user@test.com''" initial_auth_state]
    by simp
qed

section \<open>The adaptive form\<close>

text \<open>
  C6. Whatever the form holds, when the \<open>op\<close> parameter names an operation other than the
  active one, the effect makes it the active operation, resets the form to that
  operation's default values, clears the displayed error and clears the email-sent flag.
\<close>

theorem operation_change_resets:
  assumes "operation st \<noteq> B" and "qget (searchParams st) ''op'' = Some (op_value B)"
  shows "operation (operationEffect st) = B \<and>
         formValues (operationEffect st) = authFormDefaults B \<and>
         formError (operationEffect st) = None \<and>
         emailSent (operationEffect st) = False"
  using assms by (simp add: operationEffect_def lower_op_value newOperation_op_value)

theorem operation_change_resets_witness:
  "operation (register_state\<lparr> searchParams := [(''op'', ''forgot-password'')] \<rparr>) \<noteq> FORGOT_PASSWORD \<and>
   formError register_state \<noteq> None \<and> emailSent register_state \<and>
   operation (operationEffect (register_state\<lparr> searchParams := [(''op'', ''forgot-password'')] \<rparr>))
     = FORGOT_PASSWORD \<and>
   formValues (operationEffect (register_state\<lparr> searchParams := [(''op'', ''forgot-password'')] \<rparr>))
     = [(''email'', FStr [])] \<and>
   formError (operationEffect (register_state\<lparr> searchParams := [(''op'', ''forgot-password'')] \<rparr>))
     = None \<and>
   emailSent (operationEffect (register_state\<lparr> searchParams := [(''op'', ''forgot-password'')] \<rparr>))
     = False"
proof -
  let ?st = "register_state\<lparr> searchParams := [(''op'', ''forgot-password'')] \<rparr>"
  have h1: "operation ?st \<noteq> FORGOT_PASSWORD" by (simp add: register_state_def)
  have h2: "qget (searchParams ?st) ''op'' = Some (op_value FORGOT_PASSWORD)"
    by (simp add: qget_def)
  have before: "formError register_state \<noteq> None \<and> emailSent register_state"
    by (simp add: register_state_def)
  show ?thesis
    using h1 before operation_change_resets [OF h1 h2] by simp
qed

lemma duplicate_switch:
  assumes "isDuplicateMessage m"
  shows "shouldSwitchToLogin (handleError (PlainError m)
            ([(''operation'', CStr ''signup''), (''code'', CStr ''AUTH/EMAIL_ALREADY_IN_USE'')]
              @ [(''shouldSwitchToLogin'', CBool True)]))"
  using assms by (simp add: shouldSwitchToLogin_def handleError_def ctxGet_def truthyCtx_def)

lemma duplicate_user_message: "isDuplicateMessage ''User already registered''"
  by (simp add: isDuplicateMessage_def toLowerCase_def lowerChar_def)

text \<open>
  C2. When a REGISTER submission fails with a message that contains "already registered"
  or "already in use", the handler rewrites the \<open>op\<close> parameter to \<open>login\<close> and sets no
  error; the operation effect that follows makes LOGIN the active operation, and no error
  panel is shown.
\<close>

theorem duplicate_registration_switches_to_login:
  assumes "operation st = REGISTER" and "signUpWithEmail_result env = Resolved r"
    and "\<not> success r"
    and "isDuplicateMessage (failureMessage (result_error r) ''Registration failed'')"
  shows "qget (searchParams (handleFormSubmit env st)) ''op'' = Some (op_value LOGIN) \<and>
         \<not> errorPanelShown (handleFormSubmit env st) \<and>
         operation (operationEffect (handleFormSubmit env st)) = LOGIN \<and>
         \<not> errorPanelShown (operationEffect (handleFormSubmit env st))"
proof -
  let ?m = "failureMessage (result_error r) ''Registration failed''"
  have dup: "str_includes (toLowerCase ?m) ''already registered'' \<or>
             str_includes (toLowerCase ?m) ''already in use''"
    using assms(4) by (simp add: isDuplicateMessage_def)
  have sub: "handleFormSubmit env st =
             (handleOperationChange LOGIN (submit_start st))\<lparr> formLoading := False \<rparr>"
    using assms(1-3) dup duplicate_switch [OF assms(4)]
    by (simp add: handleFormSubmit_def submit_try_def submit_start_def Let_def)
  show ?thesis
    unfolding sub
    by (simp add: handleOperationChange_def submit_start_def errorPanelShown_def
        operationEffect_def qget_qset_same lower_login newOperation_def assms(1))
qed

theorem duplicate_registration_switches_to_login_witness:
  "operation register_state = REGISTER \<and>
   errorPanelShown register_state \<and>
   qget (searchParams (handleFormSubmit
          (submit_env_of (failing_action ''User already registered'')) register_state)) ''op''
     = Some ''login'' \<and>
   operation (operationEffect (handleFormSubmit
          (submit_env_of (failing_action ''User already registered'')) register_state)) = LOGIN \<and>
   \<not> errorPanelShown (operationEffect (handleFormSubmit
          (submit_env_of (failing_action ''User already registered'')) register_state))"
proof -
  let ?r = "\<lparr> success = False, result_error = Some (Text ''User already registered'') \<rparr>"
  let ?env = "submit_env_of (failing_action ''User already registered'')"
  have h1: "operation register_state = REGISTER" by (simp add: register_state_def)
  have h2: "signUpWithEmail_result ?env = Resolved ?r"
    by (simp add: submit_env_of_def failing_action_def)
  have h3: "\<not> success ?r" by simp
  have h4: "isDuplicateMessage (failureMessage (result_error ?r) ''Registration failed'')"
    using duplicate_user_message by simp
  have before: "errorPanelShown register_state"
    by (simp add: errorPanelShown_def register_state_def)
  show ?thesis
    using h1 before duplicate_registration_switches_to_login [OF h1 h2 h3 h4] by simp
qed





section \<open>The confirmation view\<close>

lemma verify_exchanges: "exchanges (verify t ty answer st) = exchanges st @ [(t, ty)]"
  by (simp add: verify_def Let_def split: outcome.splits option.splits)

text \<open>
  C3, as the code has it. The effect runs after the first render and after every render
  whose \<open>searchParams\<close> object is new; each run with both parameters present sends one
  exchange, a render with the unchanged object sends none, and a run with a parameter
  missing sends none.
\<close>

theorem recovery_exchange_per_effect_run:
  "(lastDeps st = Some (map_option sp_ident sp) \<longrightarrow> render sp answer st = st) \<and>
   (lastDeps st \<noteq> Some (map_option sp_ident sp) \<and> sp_get sp ''token_hash'' = Some t \<and>
    sp_get sp ''type'' = Some ty \<and> t \<noteq> [] \<and> ty \<noteq> [] \<longrightarrow>
      exchanges (render sp answer st) = exchanges st @ [(t, ty)]) \<and>
   (hasInvalidToken sp \<longrightarrow> exchanges (render sp answer st) = exchanges st)"
  by (auto simp: render_def verifyEffect_def verify_exchanges hasInvalidToken_def
      split: option.splits)

theorem recovery_exchange_per_effect_run_witness:
  "exchanges (render (Some (link_params 0)) (Resolved None) initial_confirm_state)
     = [(''abc'', ''email'')] \<and>
   render (Some (link_params 0)) (Resolved None)
     (render (Some (link_params 0)) (Resolved None) initial_confirm_state)
     = render (Some (link_params 0)) (Resolved None) initial_confirm_state \<and>
   hasInvalidToken None \<and>
   exchanges (render None (Resolved None) initial_confirm_state) = []"
proof -
  let ?sp = "Some (link_params 0)"
  let ?st = "render ?sp (Resolved None) initial_confirm_state"
  have fresh: "lastDeps initial_confirm_state \<noteq> Some (map_option sp_ident ?sp)"
    by (simp add: initial_confirm_state_def)
  have tok: "sp_get ?sp ''token_hash'' = Some ''abc''" and ty: "sp_get ?sp ''type'' = Some ''email''"
    by (simp_all add: sp_get_def qget_def link_params_def)
  have same: "lastDeps ?st = Some (map_option sp_ident ?sp)"
    by (simp add: render_def verifyEffect_def verify_def sp_get_def qget_def link_params_def
        initial_confirm_state_def)
  have invalid: "hasInvalidToken None" by (simp add: hasInvalidToken_def sp_get_def)
  have start: "exchanges initial_confirm_state = []" by (simp add: initial_confirm_state_def)
  show ?thesis
    using fresh tok ty same invalid start
      recovery_exchange_per_effect_run [of initial_confirm_state ?sp "Resolved None"
        "''abc''" "''email''"]
      recovery_exchange_per_effect_run [of ?st ?sp "Resolved None" "''abc''" "''email''"]
      recovery_exchange_per_effect_run [of initial_confirm_state None "Resolved None"
        "''abc''" "''email''"]
    by simp
qed

text \<open>
  C3, as the spec has it, fails: two runs of the effect for the same token, the second
  after a render with a new \<open>searchParams\<close> object, send the exchange twice.
\<close>

theorem recovery_exchange_repeated_counterexample:
  "exchanges (render (Some (link_params 1)) (Resolved None)
               (render (Some (link_params 0)) (Resolved None) initial_confirm_state))
   = [(''abc'', ''email''), (''abc'', ''email'')]"
  by (simp add: render_def verifyEffect_def verify_def sp_get_def qget_def link_params_def
      initial_confirm_state_def)

section \<open>The recovery redirect endpoint\<close>






end
